theory Spec2Isabelle
  imports Complex_Main
begin

section \<open>The piston velocity profile of the 0-D reactor notebook\<close>

text \<open>
  The notebook \<^verbatim>\<open>0D_velocity_example.ipynb\<close> defines one class, \<^verbatim>\<open>VolumeProfile\<close>:
  \<^verbatim>\<open>__init__\<close> stores the time samples, the volume samples divided by the first
  volume, and the forward-difference velocities followed by a zero; \<^verbatim>\<open>__call__\<close> looks
  a query time up in the stored arrays.

  Numbers. The arrays hold IEEE doubles. A finite double is taken as the real number it
  denotes, so the input samples are real lists and comparisons are the comparisons of the
  program. numpy does not raise on a floating-point division by zero or on overflow: the
  result is an infinity or a NaN, kept here as the one value \<open>NonFinite\<close>.

  The constructor is modelled twice. \<open>VolumeProfile_init\<close> computes quotients and
  differences exactly; it is used where only the time array and the lengths matter, which
  no rounding changes. \<open>VolumeProfile_init_with\<close> takes the arithmetic as a parameter, and
  \<open>float64_arith\<close> is the arithmetic of the program: the exact result rounded to the
  nearest double, ties to even, overflowing to an infinity. With exact arithmetic the
  second constructor is the first (lemma \<open>init_with_exact\<close>).

  Shapes. A profile holds a time and a volume sequence of one length, and the theorems
  about built profiles take the equal lengths as a hypothesis. The constructor itself
  does not check them: the quotient of the two difference arrays follows numpy's
  broadcasting, which accepts some unequal lengths and raises on the others.
\<close>

subsection \<open>Values and errors\<close>

datatype py_error = IndexError | ValueError

datatype fl = Finite real | NonFinite

text \<open>
  Exact arithmetic: the quotient of a stored value by a finite divisor (a raw input value
  or a time delta) and the difference of two stored values. The rounded operations of
  the program follow further down.
\<close>

fun fl_div :: "fl \<Rightarrow> real \<Rightarrow> fl" where
  "fl_div (Finite a) b = (if b = 0 then NonFinite else Finite (a / b))"
| "fl_div NonFinite b = NonFinite"

fun fl_sub :: "fl \<Rightarrow> fl \<Rightarrow> fl" where
  "fl_sub (Finite a) (Finite b) = Finite (a - b)"
| "fl_sub (Finite a) NonFinite = NonFinite"
| "fl_sub NonFinite b = NonFinite"

text \<open>
  Reading position \<open>i\<close> of a one-dimensional array, \<^verbatim>\<open>xs[i]\<close>. Positions \<open>0 .. len - 1\<close>
  read from the front, positions \<open>-len .. -1\<close> from the back, every other position
  raises \<^verbatim>\<open>IndexError\<close>.
\<close>

definition py_index :: "'a list \<Rightarrow> int \<Rightarrow> py_error + 'a" where
  "py_index xs i =
     (if 0 \<le> i \<and> i < int (length xs) then Inr (xs ! nat i)
      else if i < 0 \<and> - int (length xs) \<le> i then Inr (xs ! nat (int (length xs) + i))
      else Inl IndexError)"

subsection \<open>The numpy operations the class uses\<close>

text \<open>\<^verbatim>\<open>numpy.diff(a)\<close> on a one-dimensional array is \<^verbatim>\<open>a[1:] - a[:-1]\<close>.\<close>

definition np_diff :: "('a \<Rightarrow> 'a \<Rightarrow> 'b) \<Rightarrow> 'a list \<Rightarrow> 'b list" where
  "np_diff sub a = map2 sub (tl a) (butlast a)"

text \<open>
  The elementwise quotient \<^verbatim>\<open>a / b\<close> of two one-dimensional arrays. Shapes are
  broadcast: equal lengths divide pointwise, an array of length one is stretched to the
  other's length, and any other pair of lengths raises \<^verbatim>\<open>ValueError\<close>.
\<close>

definition np_divide :: "fl list \<Rightarrow> real list \<Rightarrow> py_error + fl list" where
  "np_divide a b =
     (if length a = length b then Inr (map2 fl_div a b)
      else if length b = 1 then Inr (map (\<lambda>x. fl_div x (hd b)) a)
      else if length a = 1 then Inr (map (\<lambda>y. fl_div (hd a) y) b)
      else Inl ValueError)"

text \<open>\<^verbatim>\<open>a[a <= t]\<close>: the entries selected by the boolean mask, in array order.\<close>

definition np_mask_le :: "real list \<Rightarrow> real \<Rightarrow> real list" where
  "np_mask_le a t = filter (\<lambda>x. x \<le> t) a"

text \<open>\<^verbatim>\<open>numpy.where(a == v)[0]\<close>: the indices of the entries equal to \<open>v\<close>, ascending.\<close>

definition np_where_eq :: "real list \<Rightarrow> real \<Rightarrow> nat list" where
  "np_where_eq a v = filter (\<lambda>i. a ! i = v) [0..<length a]"

subsection \<open>The class\<close>

record VolumeProfile =
  time :: "real list"
  volume :: "fl list"
  velocity :: "fl list"

text \<open>
  \<^verbatim>\<open>__init__(self, time, volume)\<close>. \<^verbatim>\<open>volume[0]\<close> raises \<^verbatim>\<open>IndexError\<close> on an empty
  sequence; the quotient of the two difference arrays raises \<^verbatim>\<open>ValueError\<close> when their
  shapes do not broadcast.
\<close>

definition VolumeProfile_init :: "real list \<Rightarrow> real list \<Rightarrow> py_error + VolumeProfile" where
  "VolumeProfile_init time_in volume_in =
     (case py_index volume_in 0 of
        Inl e \<Rightarrow> Inl e
      | Inr v0 \<Rightarrow>
          (let self_time = time_in;
               self_volume = map (\<lambda>v. fl_div (Finite v) v0) volume_in
           in case np_divide (np_diff fl_sub self_volume) (np_diff (-) self_time) of
                Inl e \<Rightarrow> Inl e
              | Inr vel \<Rightarrow>
                  Inr \<lparr>time = self_time, volume = self_volume,
                       velocity = vel @ [Finite 0]\<rparr>))"

text \<open>
  The test \<^verbatim>\<open>t <= self.time[-1] and t >= self.time[0]\<close>. The left operand is evaluated
  first and \<^verbatim>\<open>and\<close> is short-circuit.
\<close>

definition in_range :: "VolumeProfile \<Rightarrow> real \<Rightarrow> py_error + bool" where
  "in_range self t =
     (case py_index (time self) (- 1) of
        Inl e \<Rightarrow> Inl e
      | Inr t_last \<Rightarrow>
          if t \<le> t_last
          then (case py_index (time self) 0 of
                  Inl e \<Rightarrow> Inl e
                | Inr t_first \<Rightarrow> Inr (t \<ge> t_first))
          else Inr False)"

text \<open>\<^verbatim>\<open>__call__(self, t)\<close>: the value returned, or the exception raised.\<close>

definition VolumeProfile_call :: "VolumeProfile \<Rightarrow> real \<Rightarrow> py_error + fl" where
  "VolumeProfile_call self t =
     (case in_range self t of
        Inl e \<Rightarrow> Inl e
      | Inr True \<Rightarrow>
          (case py_index (np_mask_le (time self) t) (- 1) of
             Inl e \<Rightarrow> Inl e
           | Inr prev_time_point \<Rightarrow>
               (case py_index (np_where_eq (time self) prev_time_point) 0 of
                  Inl e \<Rightarrow> Inl e
                | Inr index \<Rightarrow> py_index (velocity self) (int index)))
      | Inr False \<Rightarrow> Inr (Finite 0))"

subsection \<open>The call as a program on the state of the object\<close>













subsection \<open>Float64 arithmetic\<close>

text \<open>Rounding a real to the nearest integer, a tie going to the even one.\<close>

definition round_half_even :: "real \<Rightarrow> int" where
  "round_half_even x =
     (let f = \<lfloor>x\<rfloor> in
      if x - of_int f < 1 / 2 then f
      else if 1 / 2 < x - of_int f then f + 1
      else if even f then f else f + 1)"

text \<open>
  Rounding a real to binary64. A double is an integer of magnitude below \<open>2^53\<close> times
  \<open>2^e\<close> with \<open>-1074 \<le> e \<le> 971\<close>. A real \<open>x\<close> with \<open>2^k \<le> |x| < 2^(k+1)\<close> is rounded to
  a multiple of \<open>2^(k-52)\<close>, or of \<open>2^(-1074)\<close> in the subnormal range; a result of
  magnitude \<open>2^1024\<close> or more is an infinity. The sign of a zero is not kept.
\<close>

definition float64_round :: "real \<Rightarrow> fl" where
  "float64_round x =
     (if x = 0 then Finite 0
      else let e = max (\<lfloor>log 2 \<bar>x\<bar>\<rfloor> - 52) (- 1074);
               y = of_int (round_half_even (x / 2 powi e)) * 2 powi e
           in if 2 ^ 1024 \<le> \<bar>y\<bar> then NonFinite else Finite y)"


text \<open>
  An arithmetic gives the quotient of two finite values, the divisor not zero, and the
  difference of two finite values.
\<close>

record arith =
  fdiv :: "real \<Rightarrow> real \<Rightarrow> fl"
  fsub :: "real \<Rightarrow> real \<Rightarrow> fl"

definition float64_arith :: arith where
  "float64_arith = \<lparr>fdiv = (\<lambda>a b. float64_round (a / b)),
                     fsub = (\<lambda>a b. float64_round (a - b))\<rparr>"

definition exact_arith :: arith where
  "exact_arith = \<lparr>fdiv = (\<lambda>a b. Finite (a / b)), fsub = (\<lambda>a b. Finite (a - b))\<rparr>"

text \<open>
  Quotient and difference of stored values. A division by zero gives an infinity or a
  NaN, and a non-finite operand of a difference or a non-finite dividend gives a non-finite
  result. A non-finite divisor occurs here only as a time delta, the overflowed difference
  of two finite times, which is an infinity: a finite value divided by it is a zero.
\<close>

fun div_with :: "arith \<Rightarrow> fl \<Rightarrow> fl \<Rightarrow> fl" where
  "div_with ar (Finite a) (Finite b) = (if b = 0 then NonFinite else fdiv ar a b)"
| "div_with ar (Finite a) NonFinite = Finite 0"
| "div_with ar NonFinite d = NonFinite"

fun sub_with :: "arith \<Rightarrow> fl \<Rightarrow> fl \<Rightarrow> fl" where
  "sub_with ar (Finite a) (Finite b) = fsub ar a b"
| "sub_with ar (Finite a) NonFinite = NonFinite"
| "sub_with ar NonFinite b = NonFinite"

text \<open>The broadcast quotient of two arrays and the constructor, in a given arithmetic.\<close>

definition np_divide_with :: "arith \<Rightarrow> fl list \<Rightarrow> fl list \<Rightarrow> py_error + fl list" where
  "np_divide_with ar a b =
     (if length a = length b then Inr (map2 (div_with ar) a b)
      else if length b = 1 then Inr (map (\<lambda>x. div_with ar x (hd b)) a)
      else if length a = 1 then Inr (map (\<lambda>y. div_with ar (hd a) y) b)
      else Inl ValueError)"

definition VolumeProfile_init_with ::
    "arith \<Rightarrow> real list \<Rightarrow> real list \<Rightarrow> py_error + VolumeProfile" where
  "VolumeProfile_init_with ar time_in volume_in =
     (case py_index volume_in 0 of
        Inl e \<Rightarrow> Inl e
      | Inr v0 \<Rightarrow>
          (let self_time = time_in;
               self_volume = map (\<lambda>v. div_with ar (Finite v) (Finite v0)) volume_in
           in case np_divide_with ar (np_diff (sub_with ar) self_volume)
                                     (np_diff (fsub ar) self_time) of
                Inl e \<Rightarrow> Inl e
              | Inr vel \<Rightarrow>
                  Inr \<lparr>time = self_time, volume = self_volume,
                       velocity = vel @ [Finite 0]\<rparr>))"

section \<open>Basic facts\<close>

lemma py_index_0: "py_index xs 0 = (case xs of [] \<Rightarrow> Inl IndexError | x # _ \<Rightarrow> Inr x)"
  by (cases xs) (simp_all add: py_index_def)

lemma py_index_last:
  "py_index xs (- 1) = (if xs = [] then Inl IndexError else Inr (last xs))"
proof (cases "xs = []")
  case True
  then show ?thesis by (simp add: py_index_def)
next
  case False
  then have pos: "1 \<le> int (length xs)" by (cases xs) simp_all
  then have "nat (int (length xs) + - 1) = length xs - 1" by simp
  then show ?thesis
    using False pos by (simp add: py_index_def last_conv_nth)
qed

lemma py_index_nat:
  "py_index xs (int i) = (if i < length xs then Inr (xs ! i) else Inl IndexError)"
  by (simp add: py_index_def)

lemma length_np_diff: "length (np_diff sub a) = length a - 1"
  by (simp add: np_diff_def)

lemma nth_np_diff:
  "i < length a - 1 \<Longrightarrow> np_diff sub a ! i = sub (a ! Suc i) (a ! i)"
  by (simp add: np_diff_def nth_tl nth_butlast)

lemma init_equal_length:
  assumes "length tm = length vol" and "vol \<noteq> []"
  shows "VolumeProfile_init tm vol =
           Inr \<lparr>time = tm,
                volume = map (\<lambda>v. fl_div (Finite v) (hd vol)) vol,
                velocity = map2 fl_div
                    (np_diff fl_sub (map (\<lambda>v. fl_div (Finite v) (hd vol)) vol))
                    (np_diff (-) tm) @ [Finite 0]\<rparr>"
proof -
  from assms(2) obtain v0 rest where vol: "vol = v0 # rest" by (cases vol) auto
  have len: "length (np_diff fl_sub (map (\<lambda>v. fl_div (Finite v) v0) vol))
               = length (np_diff (-) tm)"
    using assms(1) by (simp add: length_np_diff)
  show ?thesis
    using len by (simp add: VolumeProfile_init_def py_index_0 vol np_divide_def Let_def)
qed

lemma init_time: "VolumeProfile_init tm vol = Inr p \<Longrightarrow> time p = tm"
  by (auto simp: VolumeProfile_init_def Let_def split: sum.splits)

lemma velocity_last:
  assumes "length tm = length vol" and "vol \<noteq> []"
  shows "(map2 fl_div (np_diff fl_sub (map f vol)) (np_diff (-) tm) @ [Finite 0])
           ! (length vol - 1) = Finite 0"
proof -
  have "length (map2 fl_div (np_diff fl_sub (map f vol)) (np_diff (-) tm)) = length vol - 1"
    using assms(1) by (simp add: length_np_diff)
  then show ?thesis by (simp add: nth_append)
qed

lemma init_fields:
  assumes "VolumeProfile_init tm vol = Inr p" and "length tm = length vol"
  shows "vol \<noteq> []" and "tm \<noteq> []" and "time p = tm"
    and "length (velocity p) = length tm"
    and "velocity p ! (length tm - 1) = Finite 0"
proof -
  show ne: "vol \<noteq> []"
    using assms(1) by (auto simp: VolumeProfile_init_def py_index_0)
  with assms(2) show "tm \<noteq> []" by auto
  note eq = init_equal_length [OF assms(2) ne]
  from eq assms(1) show "time p = tm" by auto
  from eq assms(1) ne have v: "velocity p = map2 fl_div
                    (np_diff fl_sub (map (\<lambda>v. fl_div (Finite v) (hd vol)) vol))
                    (np_diff (-) tm) @ [Finite 0]" by auto
  from ne assms(2) show len: "length (velocity p) = length tm" 
    unfolding v by (simp add: length_np_diff)
  show "velocity p ! (length tm - 1) = Finite 0"
    unfolding v using velocity_last [OF assms(2) ne] assms(2) by simp
qed


subsection \<open>The lookup on a sorted time array\<close>

lemma upt_split_at: "i < n \<Longrightarrow> [0..<n] = [0..<i] @ i # [Suc i..<n]"
proof -
  assume lt: "i < n"
  have "[0..<i + (n - i)] = [0..<i] @ [i..<i + (n - i)]"
    by (rule upt_add_eq_append) simp
  with lt show ?thesis by (simp add: upt_conv_Cons)
qed

lemma filter_upt_first:
  assumes "i < n" and "P i" and "\<forall>j<i. \<not> P j"
  shows "filter P [0..<n] = i # filter P [Suc i..<n]"
proof -
  have "filter P [0..<i] = []"
    using assms(3) by (simp add: filter_empty_conv)
  then show ?thesis using assms(2) upt_split_at [OF assms(1)] by simp
qed

lemma sorted_last_Max:
  fixes xs :: "real list"
  assumes "sorted xs" and "xs \<noteq> []"
  shows "last xs = Max (set xs)"
proof -
  have "x \<le> last xs" if "x \<in> set xs" for x
  proof -
    from that obtain i where i: "i < length xs" "xs ! i = x"
      by (auto simp: in_set_conv_nth)
    then have "xs ! i \<le> xs ! (length xs - 1)"
      using assms(1) by (intro sorted_nth_mono) auto
    with i assms(2) show ?thesis by (simp add: last_conv_nth)
  qed
  moreover have "last xs \<in> set xs" using assms(2) by simp
  ultimately show ?thesis by (intro Max_eqI [symmetric]) auto
qed

lemma mask_nonempty:
  assumes "tm \<noteq> []" and "hd tm \<le> t"
  shows "np_mask_le tm t \<noteq> []"
proof -
  have "hd tm \<in> set (np_mask_le tm t)" using assms by (simp add: np_mask_le_def)
  then show ?thesis by auto
qed

lemma mask_last:
  assumes "sorted tm" and "tm \<noteq> []" and "hd tm \<le> t"
  shows "last (np_mask_le tm t) = Max {x \<in> set tm. x \<le> t}"
proof -
  have "sorted (np_mask_le tm t)"
    using assms(1) by (simp add: np_mask_le_def sorted_wrt_filter)
  then have "last (np_mask_le tm t) = Max (set (np_mask_le tm t))"
    using mask_nonempty [OF assms(2,3)] by (rule sorted_last_Max)
  then show ?thesis by (simp add: np_mask_le_def)
qed

lemma mask_last_in_set: 
  assumes "tm \<noteq> []" and "hd tm \<le> t"
  shows "last (np_mask_le tm t) \<in> set tm" and "last (np_mask_le tm t) \<le> t"
proof -
  have "last (np_mask_le tm t) \<in> set (np_mask_le tm t)"
    using mask_nonempty [OF assms] by simp
  then show "last (np_mask_le tm t) \<in> set tm" and "last (np_mask_le tm t) \<le> t"
    by (simp_all add: np_mask_le_def)
qed

lemma first_index_exists:
  assumes "v \<in> set (tm :: real list)"
  shows "\<exists>i<length tm. tm ! i = v \<and> (\<forall>j<i. tm ! j \<noteq> v)"
proof -
  define i where "i = (LEAST k. k < length tm \<and> tm ! k = v)"
  from assms obtain k where k: "k < length tm \<and> tm ! k = v"
    by (auto simp: in_set_conv_nth)
  then have "i < length tm \<and> tm ! i = v"
    unfolding i_def by (rule LeastI)
  moreover have "tm ! j \<noteq> v" if "j < i" for j
  proof
    assume "tm ! j = v"
    moreover have "j < length tm" using that \<open>i < length tm \<and> tm ! i = v\<close> by simp
    ultimately have "i \<le> j" unfolding i_def by (intro Least_le) simp
    with that show False by simp
  qed
  ultimately show ?thesis by blast
qed

lemma where_first:
  assumes "i < length tm" and "tm ! i = v" and "\<forall>j<i. tm ! j \<noteq> v"
  shows "py_index (np_where_eq tm v) 0 = Inr i"
  using filter_upt_first [of i "length tm" "\<lambda>k. tm ! k = v"] assms
  by (simp add: np_where_eq_def py_index_0)

lemma in_range_eq:
  "in_range p t = (if time p = [] then Inl IndexError
                   else Inr (t \<le> last (time p) \<and> hd (time p) \<le> t))"
  by (cases "time p") (simp_all add: in_range_def py_index_last py_index_0)

lemma call_sorted:
  assumes "sorted (time p)" and "time p \<noteq> []"
      and "hd (time p) \<le> t" and "t \<le> last (time p)"
      and "i < length (time p)" and "time p ! i = Max {x \<in> set (time p). x \<le> t}"
      and "\<forall>j<i. time p ! j \<noteq> time p ! i"
  shows "VolumeProfile_call p t = py_index (velocity p) (int i)"
proof -
  have r: "in_range p t = Inr True" using assms(2,3,4) by (simp add: in_range_eq)
  have m: "py_index (np_mask_le (time p) t) (- 1) = Inr (time p ! i)"
    using mask_nonempty [OF assms(2,3)] mask_last [OF assms(1,2,3)] assms(6)
    by (simp add: py_index_last)
  have w: "py_index (np_where_eq (time p) (time p ! i)) 0 = Inr i"
    using assms(5,7) by (intro where_first) auto
  show ?thesis by (simp add: VolumeProfile_call_def r m w)
qed

lemma strict_sorted_real: "sorted_wrt (<) (tm :: real list) \<Longrightarrow> sorted tm"
  by (simp add: strict_sorted_iff)

lemma strict_nth_neq:
  assumes "sorted_wrt (<) (tm :: real list)" and "i < length tm" and "j < i"
  shows "tm ! j \<noteq> tm ! i"
  using sorted_wrt_nth_less [OF assms(1) assms(3) assms(2)] by simp

lemma call_outside:
  assumes "VolumeProfile_init tm vol = Inr p" and "tm \<noteq> []"
      and "t < hd tm \<or> last tm < t"
  shows "VolumeProfile_call p t = Inr (Finite 0)"
proof -
  have "in_range p t = Inr False"
    using assms(2,3) by (auto simp: in_range_eq init_time [OF assms(1)])
  then show ?thesis by (simp add: VolumeProfile_call_def)
qed

lemma call_at_sample:
  assumes "VolumeProfile_init tm vol = Inr p" and "length tm = length vol"
      and "sorted_wrt (<) tm" and "i < length tm"
  shows "VolumeProfile_call p (tm ! i) = Inr (velocity p ! i)"
proof -
  note f = init_fields [OF assms(1,2)]
  note s = strict_sorted_real [OF assms(3)]
  have lo: "hd tm \<le> tm ! i"
    using sorted_nth_mono [OF s, of 0 i] assms(4) f(2) by (simp add: hd_conv_nth)
  have hi: "tm ! i \<le> last tm"
    using sorted_nth_mono [OF s, of i "length tm - 1"] assms(4) f(2)
    by (simp add: last_conv_nth)
  have mx: "tm ! i = Max {x \<in> set tm. x \<le> tm ! i}"
    using assms(4) by (intro Max_eqI [symmetric]) auto
  have "\<forall>j<i. tm ! j \<noteq> tm ! i"
    using strict_nth_neq [OF assms(3,4)] by blast
  then have "VolumeProfile_call p (tm ! i) = py_index (velocity p) (int i)"
    using lo hi mx assms(4) f(2) s by (intro call_sorted) (simp_all add: f(3))
  with assms(4) f(4) show ?thesis by (simp add: py_index_nat)
qed




subsection \<open>The program and the function\<close>





subsection \<open>The constructor in a given arithmetic\<close>

lemma init_with_equal_length:
  assumes "length tm = length vol" and "vol \<noteq> []"
  shows "VolumeProfile_init_with ar tm vol =
           Inr \<lparr>time = tm,
                volume = map (\<lambda>v. div_with ar (Finite v) (Finite (vol ! 0))) vol,
                velocity = map2 (div_with ar)
                    (np_diff (sub_with ar)
                       (map (\<lambda>v. div_with ar (Finite v) (Finite (vol ! 0))) vol))
                    (np_diff (fsub ar) tm) @ [Finite 0]\<rparr>"
proof -
  from assms(2) obtain v0 rest where vol: "vol = v0 # rest" by (cases vol) auto
  have len: "length (np_diff (sub_with ar) (map (\<lambda>v. div_with ar (Finite v) (Finite v0)) vol))
               = length (np_diff (fsub ar) tm)"
    using assms(1) by (simp add: length_np_diff)
  show ?thesis
    using len by (simp add: VolumeProfile_init_with_def py_index_0 vol np_divide_with_def Let_def)
qed

lemma nth_velocity_with:
  assumes "length tm = length vol" and "Suc i < length vol"
  shows "(map2 (div_with ar) (np_diff (sub_with ar) (map f vol)) (np_diff (fsub ar) tm)
            @ [Finite 0]) ! i
         = div_with ar (sub_with ar (f (vol ! Suc i)) (f (vol ! i)))
                       (fsub ar (tm ! Suc i) (tm ! i))"
proof -
  have i: "i < length vol - 1" using assms(2) by simp
  then have it: "i < length tm - 1" using assms(1) by simp
  have "i < length (map2 (div_with ar) (np_diff (sub_with ar) (map f vol))
                      (np_diff (fsub ar) tm))"
    using i it by (simp add: length_np_diff)
  then show ?thesis
    using i it assms(2) by (simp add: nth_append length_np_diff nth_np_diff)
qed

lemma last_velocity_with:
  assumes "length tm = length vol"
  shows "(map2 (div_with ar) (np_diff (sub_with ar) (map f vol)) (np_diff (fsub ar) tm)
            @ [Finite 0]) ! (length vol - 1) = Finite 0"
proof -
  have "length (map2 (div_with ar) (np_diff (sub_with ar) (map f vol)) (np_diff (fsub ar) tm))
          = length vol - 1"
    using assms by (simp add: length_np_diff)
  then show ?thesis by (simp add: nth_append)
qed

text \<open>With exact arithmetic the constructor is \<open>VolumeProfile_init\<close>.\<close>

lemma div_with_exact: "div_with exact_arith x (Finite b) = fl_div x b"
  by (cases x) (simp_all add: exact_arith_def)

lemma sub_with_exact: "sub_with exact_arith x y = fl_sub x y"
  by (cases x; cases y) (simp_all add: exact_arith_def)

lemma np_diff_exact: "np_diff (fsub exact_arith) tm = map Finite (np_diff (-) tm)"
  by (simp add: np_diff_def exact_arith_def split_def)

lemma np_divide_with_exact:
  "np_divide_with exact_arith a (map Finite b) = np_divide a b"
proof -
  have "map2 (div_with exact_arith) a (map Finite b) = map2 fl_div a b"
    by (simp add: zip_map2 div_with_exact split_def)
  moreover have "length b = 1 \<Longrightarrow> hd (map Finite b) = Finite (hd b)"
    by (cases b) simp_all
  moreover have "map (\<lambda>y. div_with exact_arith x y) (map Finite b) = map (\<lambda>y. fl_div x y) b" for x
    by (simp add: div_with_exact)
  ultimately show ?thesis
    by (simp add: np_divide_with_def np_divide_def div_with_exact)
qed

lemma init_with_exact: "VolumeProfile_init_with exact_arith tm vol = VolumeProfile_init tm vol"
proof (cases "py_index vol 0")
  case (Inl e)
  then show ?thesis by (simp add: VolumeProfile_init_with_def VolumeProfile_init_def)
next
  case (Inr v0)
  have v: "map (\<lambda>v. div_with exact_arith (Finite v) (Finite v0)) vol
             = map (\<lambda>v. fl_div (Finite v) v0) vol"
    by (simp only: div_with_exact)
  have s: "sub_with exact_arith = fl_sub"
    by (intro ext) (rule sub_with_exact)
  show ?thesis
    by (simp only: VolumeProfile_init_with_def VolumeProfile_init_def Inr sum.case Let_def
        v s np_diff_exact np_divide_with_exact)
qed

text \<open>
  In any arithmetic a profile built from sequences of one length has the time array, the
  array lengths and the last velocity of the profile built with exact arithmetic.
\<close>

lemma init_with_shape:
  assumes "length tm = length vol" and "VolumeProfile_init_with ar tm vol = Inr p"
  shows "\<exists>q. VolumeProfile_init tm vol = Inr q \<and> time q = time p
           \<and> length (volume q) = length (volume p)
           \<and> length (velocity q) = length (velocity p)
           \<and> velocity q ! (length tm - 1) = velocity p ! (length tm - 1)"
proof -
  have ne: "vol \<noteq> []"
    using assms(2) by (auto simp: VolumeProfile_init_with_def py_index_0)
  have "velocity p ! (length vol - 1) = Finite 0"
    using assms(2) last_velocity_with [OF assms(1)]
    unfolding init_with_equal_length [OF assms(1) ne] by auto
  moreover have "length (velocity p) = length vol" "length (volume p) = length vol" "time p = tm"
    using assms ne unfolding init_with_equal_length [OF assms(1) ne]
    by (auto simp: length_np_diff)
  ultimately show ?thesis
    using velocity_last [OF assms(1) ne] assms(1) ne
    unfolding init_equal_length [OF assms(1) ne] by (simp add: length_np_diff)
qed

subsection \<open>Rounding to binary64\<close>

lemma log2_bounds:
  assumes "0 < x"
  shows "2 powi k \<le> x \<Longrightarrow> real_of_int k \<le> log 2 x"
    and "x < 2 powi j \<Longrightarrow> log 2 x < real_of_int j"
proof -
  have p: "(2::real) powr real_of_int n = 2 powi n" for n
    by (simp add: powr_real_of_int')
  show "2 powi k \<le> x \<Longrightarrow> real_of_int k \<le> log 2 x"
    using assms by (subst le_log_iff) (simp_all add: p)
  show "x < 2 powi j \<Longrightarrow> log 2 x < real_of_int j"
    using assms by (subst log_less_iff) (simp_all add: p)
qed

lemma floor_log2_eq:
  assumes "2 powi k \<le> \<bar>x\<bar>" and "\<bar>x\<bar> < 2 powi (k + 1)"
  shows "\<lfloor>log 2 \<bar>x\<bar>\<rfloor> = k"
proof -
  have "(0::real) < 2 powi k" by simp
  with assms(1) have pos: "0 < \<bar>x\<bar>" by linarith
  from log2_bounds [OF pos] assms
  have "real_of_int k \<le> log 2 \<bar>x\<bar>" and "log 2 \<bar>x\<bar> < real_of_int (k + 1)"
    by blast+
  then show ?thesis by (simp add: floor_eq_iff)
qed

text \<open>Rounding a real whose binary exponent \<open>k\<close> is known.\<close>

lemma float64_round_at:
  assumes "2 powi k \<le> \<bar>x\<bar>" and "\<bar>x\<bar> < 2 powi (k + 1)"
  shows "float64_round x =
     (let e = max (k - 52) (- 1074);
          y = of_int (round_half_even (x / 2 powi e)) * 2 powi e
      in if 2 ^ 1024 \<le> \<bar>y\<bar> then NonFinite else Finite y)"
proof -
  have "(0::real) < 2 powi k" by simp
  with assms(1) have "0 < \<bar>x\<bar>" by linarith
  then have "x \<noteq> 0" by simp
  then show ?thesis
    unfolding float64_round_def floor_log2_eq [OF assms] by simp
qed

lemmas round_eval = round_half_even_def Let_def power_int_minus

lemma round_1: "float64_round 1 = Finite 1"
  by (subst float64_round_at [of 0]) (simp_all add: round_eval)

lemma round_2: "float64_round 2 = Finite 2"
  by (subst float64_round_at [of 1]) (simp_all add: round_eval)

lemma round_half: "float64_round (1 / 2) = Finite (1 / 2)"
  by (subst float64_round_at [of "- 1"]) (simp_all add: round_eval)

lemma round_4_3: "float64_round (4 / 3) = Finite (6004799503160661 / 4503599627370496)"
  by (subst float64_round_at [of 0]) (simp_all add: round_eval)


lemma round_d0:
  "float64_round (1501199875790165 / 4503599627370496)
     = Finite (1501199875790165 / 4503599627370496)"
  by (subst float64_round_at [of "- 2"]) (simp_all add: round_eval)




lemma round_3_2: "float64_round (3 / 2) = Finite (3 / 2)"
  by (subst float64_round_at [of 0]) (simp_all add: round_eval)

lemma round_5_2: "float64_round (5 / 2) = Finite (5 / 2)"
  by (subst float64_round_at [of 1]) (simp_all add: round_eval)

lemma div_float64:
  "b \<noteq> 0 \<Longrightarrow> div_with float64_arith (Finite a) (Finite b) = float64_round (a / b)"
  by (simp add: float64_arith_def)

lemma fsub_float64: "fsub float64_arith a b = float64_round (a - b)"
  by (simp add: float64_arith_def)

subsection \<open>Concrete profiles\<close>

lemma example_init:
  "VolumeProfile_init [0, 1, 2] [1, 2, 4]
     = Inr \<lparr>time = [0, 1, 2], volume = [Finite 1, Finite 2, Finite 4],
            velocity = [Finite 1, Finite 2, Finite 0]\<rparr>"
  by (simp add: VolumeProfile_init_def py_index_def np_divide_def np_diff_def Let_def)

lemma example_ties_init:
  "VolumeProfile_init [0, 1, 1, 2] [1, 2, 3, 4]
     = Inr \<lparr>time = [0, 1, 1, 2], volume = [Finite 1, Finite 2, Finite 3, Finite 4],
            velocity = [Finite 1, NonFinite, Finite 1, Finite 0]\<rparr>"
  by (simp add: VolumeProfile_init_def py_index_def np_divide_def np_diff_def Let_def)

lemmas init_with_eval =
  VolumeProfile_init_with_def py_index_def np_divide_with_def np_diff_def Let_def
  float64_arith_def

lemma example_f64_init:
  "VolumeProfile_init_with float64_arith [0, 1, 3] [2, 3, 5]
     = Inr \<lparr>time = [0, 1, 3], volume = [Finite 1, Finite (3 / 2), Finite (5 / 2)],
            velocity = [Finite (1 / 2), Finite (1 / 2), Finite 0]\<rparr>"
  by (simp add: init_with_eval round_1 round_2 round_half round_3_2 round_5_2)

lemma example_f64_rounded_init:
  "VolumeProfile_init_with float64_arith [0, 1] [3, 4]
   = Inr \<lparr>time = [0, 1],
          volume = [Finite 1, Finite (6004799503160661 / 4503599627370496)],
          velocity = [Finite (1501199875790165 / 4503599627370496), Finite 0]\<rparr>"
  by (simp add: init_with_eval round_1 round_4_3 round_d0)


section \<open>The claims\<close>

text \<open>
  C1. For a profile built from equal-length sequences with strictly increasing time
  samples, and a query time \<open>t\<close> with \<open>time[0] \<le> t \<le> time[-1]\<close>, the call returns a stored
  entry of the velocity array: the one at the index of the largest sample time not
  exceeding \<open>t\<close>. The value is constant between two samples; nothing is interpolated.
\<close>

theorem C1_step_lookup:
  assumes "VolumeProfile_init tm vol = Inr p" and "length tm = length vol"
      and "sorted_wrt (<) tm" and "hd tm \<le> t" and "t \<le> last tm"
  shows "\<exists>i<length tm. tm ! i = Max {x \<in> set tm. x \<le> t}
            \<and> VolumeProfile_call p t = Inr (velocity p ! i)"
proof -
  note f = init_fields [OF assms(1,2)]
  have "last (np_mask_le tm t) \<in> set tm"
    using f(2) assms(4) by (rule mask_last_in_set)
  then have "Max {x \<in> set tm. x \<le> t} \<in> set tm"
    using mask_last [OF strict_sorted_real [OF assms(3)] f(2) assms(4)] by simp
  then obtain i where i: "i < length tm" "tm ! i = Max {x \<in> set tm. x \<le> t}"
    by (auto simp: in_set_conv_nth)
  have "\<forall>j<i. tm ! j \<noteq> tm ! i"
    using strict_nth_neq [OF assms(3) i(1)] by blast
  then have "VolumeProfile_call p t = py_index (velocity p) (int i)"
    using assms(3,4,5) f(2) i by (intro call_sorted) (simp_all add: f(3) strict_sorted_real)
  with i f(4) show ?thesis by (auto simp: py_index_nat)
qed

text \<open>The profile of times 0, 1, 2 and volumes 1, 2, 4, queried at 3/2, returns the entry of sample 1.\<close>

theorem C1_step_lookup_witness:
  "VolumeProfile_init [0, 1, 2] [1, 2, 4]
     = Inr \<lparr>time = [0, 1, 2], volume = [Finite 1, Finite 2, Finite 4],
            velocity = [Finite 1, Finite 2, Finite 0]\<rparr>
   \<and> length [0, 1, 2 :: real] = length [1, 2, 4 :: real]
   \<and> sorted_wrt (<) [0, 1, 2 :: real]
   \<and> hd [0, 1, 2 :: real] \<le> 3 / 2 \<and> 3 / 2 \<le> last [0, 1, 2 :: real]
   \<and> (\<exists>i<length [0, 1, 2 :: real]. [0, 1, 2 :: real] ! i = Max {x \<in> set [0, 1, 2]. x \<le> 3 / 2}
         \<and> VolumeProfile_call \<lparr>time = [0, 1, 2], volume = [Finite 1, Finite 2, Finite 4],
                                  velocity = [Finite 1, Finite 2, Finite 0]\<rparr> (3 / 2)
             = Inr (velocity \<lparr>time = [0, 1, 2], volume = [Finite 1, Finite 2, Finite 4],
                              velocity = [Finite 1, Finite 2, Finite 0]\<rparr> ! i))
   \<and> VolumeProfile_call \<lparr>time = [0, 1, 2], volume = [Finite 1, Finite 2, Finite 4],
                            velocity = [Finite 1, Finite 2, Finite 0]\<rparr> (3 / 2)
       = Inr (Finite 2)"
proof -
  have h2: "length [0, 1, 2 :: real] = length [1, 2, 4 :: real]" by simp
  have h3: "sorted_wrt (<) [0, 1, 2 :: real]" by simp
  have h4: "hd [0, 1, 2 :: real] \<le> 3 / 2" by simp
  have h5: "3 / 2 \<le> last [0, 1, 2 :: real]" by simp
  have v: "VolumeProfile_call \<lparr>time = [0, 1, 2], volume = [Finite 1, Finite 2, Finite 4],
                            velocity = [Finite 1, Finite 2, Finite 0]\<rparr> (3 / 2)
       = Inr (Finite 2)"
    by code_simp
  from C1_step_lookup [OF example_init h2 h3 h4 h5] example_init h2 h3 h4 h5 v
  show ?thesis by blast
qed

text \<open>
  C2. For a profile with at least one time sample and a query time strictly before the
  first sample or strictly after the last, the call returns 0. No order of the samples
  is needed.
\<close>

theorem C2_outside_zero:
  assumes "VolumeProfile_init tm vol = Inr p" and "tm \<noteq> []"
      and "t < hd tm \<or> last tm < t"
  shows "VolumeProfile_call p t = Inr (Finite 0)"
  using assms by (rule call_outside)

text \<open>Queries at 5, after the last sample, and at -1, before the first.\<close>

theorem C2_outside_zero_witness:
  "VolumeProfile_init [0, 1, 2] [1, 2, 4]
     = Inr \<lparr>time = [0, 1, 2], volume = [Finite 1, Finite 2, Finite 4],
            velocity = [Finite 1, Finite 2, Finite 0]\<rparr>
   \<and> [0, 1, 2 :: real] \<noteq> []
   \<and> (5 < hd [0, 1, 2 :: real] \<or> last [0, 1, 2 :: real] < 5)
   \<and> (- 1 < hd [0, 1, 2 :: real] \<or> last [0, 1, 2 :: real] < - 1)
   \<and> VolumeProfile_call \<lparr>time = [0, 1, 2], volume = [Finite 1, Finite 2, Finite 4],
                            velocity = [Finite 1, Finite 2, Finite 0]\<rparr> 5
       = Inr (Finite 0)
   \<and> VolumeProfile_call \<lparr>time = [0, 1, 2], volume = [Finite 1, Finite 2, Finite 4],
                            velocity = [Finite 1, Finite 2, Finite 0]\<rparr> (- 1)
       = Inr (Finite 0)"
proof -
  have h2: "[0, 1, 2 :: real] \<noteq> []" by simp
  have h3: "5 < hd [0, 1, 2 :: real] \<or> last [0, 1, 2 :: real] < 5" by simp
  have h4: "- 1 < hd [0, 1, 2 :: real] \<or> last [0, 1, 2 :: real] < - 1" by simp
  from C2_outside_zero [OF example_init h2 h3] C2_outside_zero [OF example_init h2 h4]
    example_init h2 h3 h4
  show ?thesis by blast
qed

text \<open>
  C3. For a profile built from equal-length sequences with strictly increasing time
  samples, the call at a sample time \<open>time[i]\<close> returns \<open>velocity[i]\<close>.
\<close>

theorem C3_exact_sample:
  assumes "VolumeProfile_init tm vol = Inr p" and "length tm = length vol"
      and "sorted_wrt (<) tm" and "i < length tm"
  shows "VolumeProfile_call p (tm ! i) = Inr (velocity p ! i)"
  using assms by (rule call_at_sample)

text \<open>The query at the sample of index 1.\<close>

theorem C3_exact_sample_witness:
  "VolumeProfile_init [0, 1, 2] [1, 2, 4]
     = Inr \<lparr>time = [0, 1, 2], volume = [Finite 1, Finite 2, Finite 4],
            velocity = [Finite 1, Finite 2, Finite 0]\<rparr>
   \<and> length [0, 1, 2 :: real] = length [1, 2, 4 :: real]
   \<and> sorted_wrt (<) [0, 1, 2 :: real]
   \<and> 1 < length [0, 1, 2 :: real]
   \<and> VolumeProfile_call \<lparr>time = [0, 1, 2], volume = [Finite 1, Finite 2, Finite 4],
                            velocity = [Finite 1, Finite 2, Finite 0]\<rparr> ([0, 1, 2] ! 1)
       = Inr (velocity \<lparr>time = [0, 1, 2], volume = [Finite 1, Finite 2, Finite 4],
                        velocity = [Finite 1, Finite 2, Finite 0]\<rparr> ! 1)
   \<and> velocity \<lparr>time = [0, 1, 2], volume = [Finite 1, Finite 2, Finite 4],
                 velocity = [Finite 1, Finite 2, Finite 0]\<rparr> ! 1 = Finite 2"
proof -
  have h2: "length [0, 1, 2 :: real] = length [1, 2, 4 :: real]" by simp
  have h3: "sorted_wrt (<) [0, 1, 2 :: real]" by simp
  have h4: "1 < length [0, 1, 2 :: real]" by simp
  have v: "velocity \<lparr>time = [0, 1, 2], volume = [Finite 1, Finite 2, Finite 4],
                 velocity = [Finite 1, Finite 2, Finite 0]\<rparr> ! 1 = Finite 2"
    by simp
  from C3_exact_sample [OF example_init h2 h3 h4] example_init h2 h3 h4 v
  show ?thesis by blast
qed

text \<open>
  C4. In any arithmetic, float64 among them, a profile built from a time and a volume
  sequence of the same length \<open>n \<ge> 1\<close> is built without an exception. Its time array is
  the input, its volume array is the input divided by the first input volume, and its
  velocity array is the \<open>n - 1\<close> forward differences of that normalised volume, each
  divided by the time delta of its position, followed by one zero. The velocity array
  has length \<open>n\<close>, the length of the time and of the volume array.
\<close>

theorem C4_velocity_length:
  assumes "length tm = length vol" and "1 \<le> length vol"
  shows "\<exists>p. VolumeProfile_init_with ar tm vol = Inr p
           \<and> time p = tm
           \<and> volume p = map (\<lambda>v. div_with ar (Finite v) (Finite (vol ! 0))) vol
           \<and> velocity p = map2 (div_with ar) (np_diff (sub_with ar) (volume p))
                                              (np_diff (fsub ar) (time p)) @ [Finite 0]
           \<and> (\<forall>i. Suc i < length vol \<longrightarrow>
                 velocity p ! i = div_with ar (sub_with ar (volume p ! Suc i) (volume p ! i))
                                              (fsub ar (tm ! Suc i) (tm ! i)))
           \<and> velocity p ! (length vol - 1) = Finite 0
           \<and> length (np_diff (sub_with ar) (volume p)) = length vol - 1
           \<and> length (np_diff (fsub ar) (time p)) = length vol - 1
           \<and> length (velocity p) = length vol
           \<and> length (time p) = length vol
           \<and> length (volume p) = length vol"
proof -
  from assms(2) have ne: "vol \<noteq> []" by auto
  define f where "f = (\<lambda>v. div_with ar (Finite v) (Finite (vol ! 0)))"
  define p where "p = \<lparr>time = tm, volume = map f vol,
      velocity = map2 (div_with ar) (np_diff (sub_with ar) (map f vol))
                                    (np_diff (fsub ar) tm) @ [Finite 0]\<rparr>"
  have init: "VolumeProfile_init_with ar tm vol = Inr p"
    unfolding p_def f_def by (rule init_with_equal_length [OF assms(1) ne])
  have fields: "time p = tm" "volume p = map f vol"
      "velocity p = map2 (div_with ar) (np_diff (sub_with ar) (volume p))
                                       (np_diff (fsub ar) (time p)) @ [Finite 0]"
    by (simp_all add: p_def)
  have nth: "velocity p ! i = div_with ar (sub_with ar (volume p ! Suc i) (volume p ! i))
                                          (fsub ar (tm ! Suc i) (tm ! i))"
    if "Suc i < length vol" for i
    using nth_velocity_with [OF assms(1) that, of ar f] that by (simp add: p_def)
  have last: "velocity p ! (length vol - 1) = Finite 0"
    using last_velocity_with [OF assms(1), of ar f] by (simp add: p_def)
  have lens: "length (np_diff (sub_with ar) (volume p)) = length vol - 1"
      "length (np_diff (fsub ar) (time p)) = length vol - 1"
      "length (velocity p) = length vol" "length (time p) = length vol"
      "length (volume p) = length vol"
    using assms by (simp_all add: p_def length_np_diff)
  from init fields nth last lens show ?thesis
    unfolding f_def by blast
qed

text \<open>Times 0, 1, 3 and volumes 2, 3, 5 in float64: no operation rounds.\<close>

theorem C4_velocity_length_witness:
  "length [0, 1, 3 :: real] = length [2, 3, 5 :: real] \<and> 1 \<le> length [2, 3, 5 :: real]
   \<and> (\<exists>p. VolumeProfile_init_with float64_arith [0, 1, 3] [2, 3, 5] = Inr p
           \<and> time p = [0, 1, 3]
           \<and> volume p = map (\<lambda>v. div_with float64_arith (Finite v) (Finite ([2, 3, 5] ! 0)))
                             [2, 3, 5]
           \<and> velocity p = map2 (div_with float64_arith)
                              (np_diff (sub_with float64_arith) (volume p))
                              (np_diff (fsub float64_arith) (time p)) @ [Finite 0]
           \<and> (\<forall>i. Suc i < length [2, 3, 5 :: real] \<longrightarrow>
                 velocity p ! i
                   = div_with float64_arith
                       (sub_with float64_arith (volume p ! Suc i) (volume p ! i))
                       (fsub float64_arith ([0, 1, 3] ! Suc i) ([0, 1, 3] ! i)))
           \<and> velocity p ! (length [2, 3, 5 :: real] - 1) = Finite 0
           \<and> length (np_diff (sub_with float64_arith) (volume p)) = length [2, 3, 5 :: real] - 1
           \<and> length (np_diff (fsub float64_arith) (time p)) = length [2, 3, 5 :: real] - 1
           \<and> length (velocity p) = length [2, 3, 5 :: real]
           \<and> length (time p) = length [2, 3, 5 :: real]
           \<and> length (volume p) = length [2, 3, 5 :: real])
   \<and> VolumeProfile_init_with float64_arith [0, 1, 3] [2, 3, 5]
       = Inr \<lparr>time = [0, 1, 3], volume = [Finite 1, Finite (3 / 2), Finite (5 / 2)],
              velocity = [Finite (1 / 2), Finite (1 / 2), Finite 0]\<rparr>"
proof -
  have h1: "length [0, 1, 3 :: real] = length [2, 3, 5 :: real]" by simp
  have h2: "1 \<le> length [2, 3, 5 :: real]" by simp
  from C4_velocity_length [OF h1 h2, of float64_arith] h1 h2 example_f64_init
  show ?thesis by blast
qed

text \<open>
  C5. In float64, for equal-length sequences whose first volume is not zero, the stored
  volume array is the input with every entry divided by the first input volume, so its
  first entry is 1, and for every \<open>i < n - 1\<close> the stored \<open>velocity[i]\<close> is the quotient of
  \<open>volume[i+1]/volume[0] - volume[i]/volume[0]\<close> by \<open>time[i+1] - time[i]\<close>, every
  quotient and difference being the rounded one of the program.
\<close>

theorem C5_normalised:
  assumes "length tm = length vol" and "vol \<noteq> []" and "vol ! 0 \<noteq> 0"
  shows "\<exists>p. VolumeProfile_init_with float64_arith tm vol = Inr p
           \<and> volume p = map (\<lambda>v. float64_round (v / vol ! 0)) vol
           \<and> volume p ! 0 = Finite 1
           \<and> (\<forall>i. Suc i < length vol \<longrightarrow>
                 velocity p ! i
                   = div_with float64_arith
                       (sub_with float64_arith (float64_round (vol ! Suc i / vol ! 0))
                                               (float64_round (vol ! i / vol ! 0)))
                       (float64_round (tm ! Suc i - tm ! i)))"
proof -
  define f where "f = (\<lambda>v. div_with float64_arith (Finite v) (Finite (vol ! 0)))"
  define p where "p = \<lparr>time = tm, volume = map f vol,
      velocity = map2 (div_with float64_arith) (np_diff (sub_with float64_arith) (map f vol))
                                    (np_diff (fsub float64_arith) tm) @ [Finite 0]\<rparr>"
  have f: "f v = float64_round (v / vol ! 0)" for v
    unfolding f_def using assms(3) by (rule div_float64)
  have init: "VolumeProfile_init_with float64_arith tm vol = Inr p"
    unfolding p_def f_def by (rule init_with_equal_length [OF assms(1,2)])
  have vol: "volume p = map (\<lambda>v. float64_round (v / vol ! 0)) vol"
    by (simp add: p_def f)
  have one: "volume p ! 0 = Finite 1"
    using assms(2,3) by (simp add: vol round_1)
  have nth: "velocity p ! i
                   = div_with float64_arith
                       (sub_with float64_arith (float64_round (vol ! Suc i / vol ! 0))
                                               (float64_round (vol ! i / vol ! 0)))
                       (float64_round (tm ! Suc i - tm ! i))"
    if "Suc i < length vol" for i
    using nth_velocity_with [OF assms(1) that, of float64_arith f]
    by (simp add: p_def f fsub_float64)
  from init vol one nth show ?thesis by blast
qed

text \<open>
  Times 0, 1 and volumes 3, 4. The quotient 4/3 rounds to 1.3333333333333333 and the
  stored velocity is 0.33333333333333326.
\<close>

theorem C5_normalised_witness:
  "length [0, 1 :: real] = length [3, 4 :: real] \<and> [3, 4 :: real] \<noteq> []
   \<and> [3, 4 :: real] ! 0 \<noteq> 0
   \<and> (\<exists>p. VolumeProfile_init_with float64_arith [0, 1] [3, 4] = Inr p
           \<and> volume p = map (\<lambda>v. float64_round (v / [3, 4] ! 0)) [3, 4]
           \<and> volume p ! 0 = Finite 1
           \<and> (\<forall>i. Suc i < length [3, 4 :: real] \<longrightarrow>
                 velocity p ! i
                   = div_with float64_arith
                       (sub_with float64_arith (float64_round ([3, 4] ! Suc i / [3, 4] ! 0))
                                               (float64_round ([3, 4] ! i / [3, 4] ! 0)))
                       (float64_round ([0, 1] ! Suc i - [0, 1] ! i))))
   \<and> VolumeProfile_init_with float64_arith [0, 1] [3, 4]
       = Inr \<lparr>time = [0, 1],
              volume = [Finite 1, Finite (6004799503160661 / 4503599627370496)],
              velocity = [Finite (1501199875790165 / 4503599627370496), Finite 0]\<rparr>"
proof -
  have h1: "length [0, 1 :: real] = length [3, 4 :: real]" by simp
  have h2: "[3, 4 :: real] \<noteq> []" by simp
  have h3: "[3, 4 :: real] ! 0 \<noteq> 0" by simp
  from C5_normalised [OF h1 h2 h3] h1 h2 h3 example_f64_rounded_init
  show ?thesis by blast
qed




text \<open>
  C7, for queries within the sampled range. For a profile built from equal-length
  sequences whose time samples are
  non-decreasing (entries may repeat), and a query time \<open>t\<close> with
  \<open>time[0] \<le> t \<le> time[-1]\<close>, the call returns \<open>velocity[i]\<close> for \<open>i\<close> the first index
  whose time equals the largest sample time not exceeding \<open>t\<close>: the equality search
  takes the first match.
\<close>

theorem C7_ties_first_match:
  assumes "VolumeProfile_init tm vol = Inr p" and "length tm = length vol"
      and "sorted tm" and "hd tm \<le> t" and "t \<le> last tm"
  shows "\<exists>i<length tm. tm ! i = Max {x \<in> set tm. x \<le> t}
            \<and> (\<forall>j<i. tm ! j \<noteq> tm ! i)
            \<and> VolumeProfile_call p t = Inr (velocity p ! i)"
proof -
  note f = init_fields [OF assms(1,2)]
  have "last (np_mask_le tm t) \<in> set tm"
    using f(2) assms(4) by (rule mask_last_in_set)
  then have "Max {x \<in> set tm. x \<le> t} \<in> set tm"
    using mask_last [OF assms(3) f(2) assms(4)] by simp
  from first_index_exists [OF this]
  obtain i where i: "i < length tm" "tm ! i = Max {x \<in> set tm. x \<le> t}"
      "\<forall>j<i. tm ! j \<noteq> tm ! i"
    by auto
  then have "VolumeProfile_call p t = py_index (velocity p) (int i)"
    using assms(3,4,5) f(2) by (intro call_sorted) (simp_all add: f(3))
  with i f(4) show ?thesis by (auto simp: py_index_nat)
qed

text \<open>
  Times 0, 1, 1, 2: the query at 3/2 finds the time 1 first at index 1, whose velocity
  is a quotient by the zero time delta.
\<close>

theorem C7_ties_first_match_witness:
  "VolumeProfile_init [0, 1, 1, 2] [1, 2, 3, 4]
     = Inr \<lparr>time = [0, 1, 1, 2], volume = [Finite 1, Finite 2, Finite 3, Finite 4],
            velocity = [Finite 1, NonFinite, Finite 1, Finite 0]\<rparr>
   \<and> length [0, 1, 1, 2 :: real] = length [1, 2, 3, 4 :: real]
   \<and> sorted [0, 1, 1, 2 :: real]
   \<and> hd [0, 1, 1, 2 :: real] \<le> 3 / 2 \<and> 3 / 2 \<le> last [0, 1, 1, 2 :: real]
   \<and> (\<exists>i<length [0, 1, 1, 2 :: real].
          [0, 1, 1, 2 :: real] ! i = Max {x \<in> set [0, 1, 1, 2]. x \<le> 3 / 2}
        \<and> (\<forall>j<i. [0, 1, 1, 2 :: real] ! j \<noteq> [0, 1, 1, 2] ! i)
        \<and> VolumeProfile_call
             \<lparr>time = [0, 1, 1, 2], volume = [Finite 1, Finite 2, Finite 3, Finite 4],
              velocity = [Finite 1, NonFinite, Finite 1, Finite 0]\<rparr> (3 / 2)
            = Inr (velocity
                \<lparr>time = [0, 1, 1, 2], volume = [Finite 1, Finite 2, Finite 3, Finite 4],
                 velocity = [Finite 1, NonFinite, Finite 1, Finite 0]\<rparr> ! i))
   \<and> VolumeProfile_call
         \<lparr>time = [0, 1, 1, 2], volume = [Finite 1, Finite 2, Finite 3, Finite 4],
          velocity = [Finite 1, NonFinite, Finite 1, Finite 0]\<rparr> (3 / 2)
       = Inr NonFinite"
proof -
  have h2: "length [0, 1, 1, 2 :: real] = length [1, 2, 3, 4 :: real]" by simp
  have h3: "sorted [0, 1, 1, 2 :: real]" by simp
  have h4: "hd [0, 1, 1, 2 :: real] \<le> 3 / 2" by simp
  have h5: "3 / 2 \<le> last [0, 1, 1, 2 :: real]" by simp
  have v: "VolumeProfile_call
         \<lparr>time = [0, 1, 1, 2], volume = [Finite 1, Finite 2, Finite 3, Finite 4],
          velocity = [Finite 1, NonFinite, Finite 1, Finite 0]\<rparr> (3 / 2)
       = Inr NonFinite"
    by code_simp
  from C7_ties_first_match [OF example_ties_init h2 h3 h4 h5] example_ties_init h2 h3 h4 h5 v
  show ?thesis by blast
qed

text \<open>
  C7 for a query after the last sample. With times 0, 1, 1 the time 1
  occurs twice and is the largest time not exceeding both 1 and 2. At \<open>t = 1\<close> the call
  returns the velocity of the first match, index 1; at \<open>t = 2\<close>, a query after that time
  value, the range test sends the call to its other branch and it returns 0, which is
  not that velocity.
\<close>

theorem C7_counterexample:
  "VolumeProfile_init [0, 1, 1] [1, 2, 3]
     = Inr \<lparr>time = [0, 1, 1], volume = [Finite 1, Finite 2, Finite 3],
            velocity = [Finite 1, NonFinite, Finite 0]\<rparr>
   \<and> [0, 1, 1 :: real] ! 1 = [0, 1, 1] ! 2
   \<and> [0, 1, 1 :: real] ! 1 \<le> 2
   \<and> Max (set (np_mask_le [0, 1, 1] 2)) = [0, 1, 1] ! 1
   \<and> Max (set (np_mask_le [0, 1, 1] 1)) = [0, 1, 1] ! 1
   \<and> [0, 1, 1 :: real] ! 0 \<noteq> [0, 1, 1] ! 1
   \<and> VolumeProfile_call \<lparr>time = [0, 1, 1], volume = [Finite 1, Finite 2, Finite 3],
                            velocity = [Finite 1, NonFinite, Finite 0]\<rparr> 1
       = Inr ([Finite 1, NonFinite, Finite 0] ! 1)
   \<and> VolumeProfile_call \<lparr>time = [0, 1, 1], volume = [Finite 1, Finite 2, Finite 3],
                            velocity = [Finite 1, NonFinite, Finite 0]\<rparr> 2
       = Inr (Finite 0)
   \<and> Inr (Finite 0) \<noteq> (Inr ([Finite 1, NonFinite, Finite 0] ! 1) :: py_error + fl)"
proof -
  have i: "VolumeProfile_init [0, 1, 1] [1, 2, 3]
     = Inr \<lparr>time = [0, 1, 1], volume = [Finite 1, Finite 2, Finite 3],
            velocity = [Finite 1, NonFinite, Finite 0]\<rparr>"
    by (simp add: VolumeProfile_init_def py_index_def np_divide_def np_diff_def Let_def)
  have m: "Max (set (np_mask_le [0, 1, 1] 2)) = [0, 1, 1] ! 1"
       "Max (set (np_mask_le [0, 1, 1] 1)) = [0, 1, 1] ! 1"
    by (simp_all add: np_mask_le_def)
  have c1: "VolumeProfile_call \<lparr>time = [0, 1, 1], volume = [Finite 1, Finite 2, Finite 3],
                            velocity = [Finite 1, NonFinite, Finite 0]\<rparr> 1
       = Inr ([Finite 1, NonFinite, Finite 0] ! 1)"
    by code_simp
  have c2: "VolumeProfile_call \<lparr>time = [0, 1, 1], volume = [Finite 1, Finite 2, Finite 3],
                            velocity = [Finite 1, NonFinite, Finite 0]\<rparr> 2
       = Inr (Finite 0)"
    by code_simp
  from i m c1 c2 show ?thesis by simp
qed



text \<open>
  C9. For a profile built from equal-length sequences of length \<open>n \<ge> 1\<close> with strictly
  increasing time samples, the query at the last sample time passes the range test and
  returns the entry \<open>velocity[n-1]\<close>, the appended zero; so the call returns 0 for every
  \<open>t\<close> at or after the last sample time.
\<close>

theorem C9_last_sample_zero:
  assumes "VolumeProfile_init tm vol = Inr p" and "length tm = length vol"
      and "sorted_wrt (<) tm" and "1 \<le> length tm"
  shows "in_range p (last tm) = Inr True
       \<and> VolumeProfile_call p (last tm) = Inr (velocity p ! (length tm - 1))
       \<and> velocity p ! (length tm - 1) = Finite 0
       \<and> (\<forall>t\<ge>last tm. VolumeProfile_call p t = Inr (Finite 0))"
proof -
  note f = init_fields [OF assms(1,2)]
  note s = strict_sorted_real [OF assms(3)]
  have n: "length tm - 1 < length tm" using assms(4) by simp
  have l: "last tm = tm ! (length tm - 1)" using f(2) by (simp add: last_conv_nth)
  have "hd tm \<le> last tm"
    using sorted_nth_mono [OF s, of 0 "length tm - 1"] f(2) n
    by (simp add: hd_conv_nth l)
  then have r: "in_range p (last tm) = Inr True"
    using f(2) by (simp add: in_range_eq f(3))
  have c: "VolumeProfile_call p (last tm) = Inr (velocity p ! (length tm - 1))"
    using call_at_sample [OF assms(1,2,3) n] l by simp
  have z: "VolumeProfile_call p t = Inr (Finite 0)" if "last tm \<le> t" for t
  proof (cases "t = last tm")
    case True
    with c f(5) show ?thesis by simp
  next
    case False
    with that have "last tm < t" by simp
    then show ?thesis using call_outside [OF assms(1) f(2)] by blast
  qed
  from r c f(5) z show ?thesis by blast
qed

text \<open>Queries at the last sample time 2 and at 7.\<close>

theorem C9_last_sample_zero_witness:
  "VolumeProfile_init [0, 1, 2] [1, 2, 4]
     = Inr \<lparr>time = [0, 1, 2], volume = [Finite 1, Finite 2, Finite 4],
            velocity = [Finite 1, Finite 2, Finite 0]\<rparr>
   \<and> length [0, 1, 2 :: real] = length [1, 2, 4 :: real]
   \<and> sorted_wrt (<) [0, 1, 2 :: real]
   \<and> 1 \<le> length [0, 1, 2 :: real]
   \<and> last [0, 1, 2 :: real] = 2
   \<and> in_range \<lparr>time = [0, 1, 2], volume = [Finite 1, Finite 2, Finite 4],
                 velocity = [Finite 1, Finite 2, Finite 0]\<rparr> 2 = Inr True
   \<and> VolumeProfile_call \<lparr>time = [0, 1, 2], volume = [Finite 1, Finite 2, Finite 4],
                            velocity = [Finite 1, Finite 2, Finite 0]\<rparr> 2
       = Inr (Finite 0)
   \<and> VolumeProfile_call \<lparr>time = [0, 1, 2], volume = [Finite 1, Finite 2, Finite 4],
                            velocity = [Finite 1, Finite 2, Finite 0]\<rparr> 7
       = Inr (Finite 0)"
proof -
  have h2: "length [0, 1, 2 :: real] = length [1, 2, 4 :: real]" by simp
  have h3: "sorted_wrt (<) [0, 1, 2 :: real]" by simp
  have h4: "1 \<le> length [0, 1, 2 :: real]" by simp
  have l: "last [0, 1, 2 :: real] = 2" by simp
  from C9_last_sample_zero [OF example_init h2 h3 h4] example_init h2 h3 h4 l
  show ?thesis by simp
qed




end
